theory Spec2Isabelle
  imports Main
begin

section \<open>Data model (store/audioStore.ts)\<close>

text \<open>
  JavaScript numbers that hold milliseconds and indices are modelled as \<open>int\<close>.
  Handles of \<open>Audio.Sound\<close> objects and of timers are natural numbers; \<open>null\<close> is
  \<open>None\<close>, and the truthiness tests \<open>if (store.sound)\<close>, \<open>if (store.delayTimeoutId)\<close>
  are the tests for \<open>Some\<close>.

  Field names are those of the source, except where two interfaces share a name or the
  name is a HOL constant: \<open>AudioFile.duration\<close> is \<open>file_duration\<close>, \<open>Book.id\<close> is
  \<open>book_id\<close>, and \<open>Book.currentPosition\<close> is \<open>book_currentPosition\<close>.
\<close>

record AudioFile =
  uri :: string
  name :: string
  file_duration :: int

record Book =
  book_id :: string
  title :: string
  path :: string
  files :: "AudioFile list"
  totalDuration :: int
  is_series :: bool
  series_name :: "string option"
  currentFileIndex :: int
  book_currentPosition :: int

record AudioState =
  sound :: "nat option"
  isPlaying :: bool
  currentBook :: "Book option"
  currentPosition :: int
  duration :: int
  isLoading :: bool
  delayMinutes :: int
  delayTimeoutId :: "nat option"
  isDelayActive :: bool
  delayStartTime :: "int option"

text \<open>The initial value of the zustand store.\<close>

definition initial_store :: AudioState where
  "initial_store =
     \<lparr> sound = None, isPlaying = False, currentBook = None, currentPosition = 0,
       duration = 0, isLoading = False, delayMinutes = 5, delayTimeoutId = None,
       isDelayActive = False, delayStartTime = None \<rparr>"

section \<open>The world around the store\<close>

text \<open>
  Everything the service touches besides the store is made explicit: the calls issued to
  the audio engine (expo-av), the HTTP requests sent with axios, the contents of
  AsyncStorage, the pending timers, the static field \<open>AudioService.updateInterval\<close>, and
  the lines written with \<open>console.error\<close>.
\<close>

datatype engine_call =
    UnloadAsync nat
  | CreateAsync string int
  | PlayAsync nat
  | PauseAsync nat
  | SetPositionAsync nat int

datatype http_request =
    Post_progress string int int int
  | Get_progress string

datatype timer_task =
    Interval_saveProgress int
  | Timeout_delayedStart Book int

record LocalProgress =
  position :: int
  fileIndex :: int
  timestamp :: int

record world =
  store :: AudioState
  updateInterval :: "nat option"
  timers :: "nat \<rightharpoonup> timer_task"
  next_timer :: nat
  engine :: "engine_call list"
  http :: "http_request list"
  asyncStorage :: "string \<rightharpoonup> LocalProgress"
  console :: "string list"

definition initial_world :: world where
  "initial_world =
     \<lparr> store = initial_store, updateInterval = None, timers = Map.empty, next_timer = 1,
       engine = [], http = [], asyncStorage = Map.empty, console = [] \<rparr>"

text \<open>
  How an awaited promise of the environment settles. The settlement is an input of the
  model: the code has no control over it.
\<close>

datatype 'a outcome = Resolved 'a | Rejected

text \<open>
  How an async function of the service ends: its promise is fulfilled, or an exception
  that no \<open>try\<close> caught rejects it. Both carry the world as the function left it.
\<close>

datatype completion = Returned world | Threw world

fun world_of :: "completion \<Rightarrow> world" where
  "world_of (Returned w) = w"
| "world_of (Threw w) = w"

fun await_engine :: "unit outcome \<Rightarrow> world \<Rightarrow> completion" where
  "await_engine (Resolved _) w = Returned w"
| "await_engine Rejected w = Threw w"

subsection \<open>Store actions\<close>

definition setSound :: "nat option \<Rightarrow> world \<Rightarrow> world" where
  "setSound v w = w\<lparr>store := (store w)\<lparr>sound := v\<rparr>\<rparr>"

definition setIsPlaying :: "bool \<Rightarrow> world \<Rightarrow> world" where
  "setIsPlaying v w = w\<lparr>store := (store w)\<lparr>isPlaying := v\<rparr>\<rparr>"

definition setCurrentBook :: "Book option \<Rightarrow> world \<Rightarrow> world" where
  "setCurrentBook v w = w\<lparr>store := (store w)\<lparr>currentBook := v\<rparr>\<rparr>"

definition setCurrentPosition :: "int \<Rightarrow> world \<Rightarrow> world" where
  "setCurrentPosition v w = w\<lparr>store := (store w)\<lparr>currentPosition := v\<rparr>\<rparr>"

definition setDuration :: "int \<Rightarrow> world \<Rightarrow> world" where
  "setDuration v w = w\<lparr>store := (store w)\<lparr>duration := v\<rparr>\<rparr>"

definition setIsLoading :: "bool \<Rightarrow> world \<Rightarrow> world" where
  "setIsLoading v w = w\<lparr>store := (store w)\<lparr>isLoading := v\<rparr>\<rparr>"

definition setDelayTimeoutId :: "nat option \<Rightarrow> world \<Rightarrow> world" where
  "setDelayTimeoutId v w = w\<lparr>store := (store w)\<lparr>delayTimeoutId := v\<rparr>\<rparr>"

definition setIsDelayActive :: "bool \<Rightarrow> world \<Rightarrow> world" where
  "setIsDelayActive v w = w\<lparr>store := (store w)\<lparr>isDelayActive := v\<rparr>\<rparr>"

definition setDelayStartTime :: "int option \<Rightarrow> world \<Rightarrow> world" where
  "setDelayStartTime v w = w\<lparr>store := (store w)\<lparr>delayStartTime := v\<rparr>\<rparr>"

subsection \<open>Environment primitives\<close>

definition console_error :: "string \<Rightarrow> world \<Rightarrow> world" where
  "console_error msg w = w\<lparr>console := console w @ [msg]\<rparr>"

definition engine_issue :: "engine_call \<Rightarrow> world \<Rightarrow> world" where
  "engine_issue c w = w\<lparr>engine := engine w @ [c]\<rparr>"

definition http_issue :: "http_request \<Rightarrow> world \<Rightarrow> world" where
  "http_issue r w = w\<lparr>http := http w @ [r]\<rparr>"

text \<open>\<open>clearTimeout\<close> and \<open>clearInterval\<close>: the timer is no longer pending.\<close>

definition clearTimer :: "nat \<Rightarrow> world \<Rightarrow> world" where
  "clearTimer t w = w\<lparr>timers := (timers w)(t := None)\<rparr>"

text \<open>\<open>setTimeout\<close> and \<open>setInterval\<close>: a fresh handle, returned with the world.\<close>

definition setTimer :: "timer_task \<Rightarrow> world \<Rightarrow> nat \<times> world" where
  "setTimer task w =
     (next_timer w, w\<lparr>timers := (timers w)(next_timer w \<mapsto> task), next_timer := Suc (next_timer w)\<rparr>)"

text \<open>The AsyncStorage key \<open>book_progress_${id}\<close>.\<close>

definition progress_key :: "string \<Rightarrow> string" where
  "progress_key bid = ''book_progress_'' @ bid"

text \<open>
  \<open>xs[i]\<close> in JavaScript: \<open>undefined\<close> outside the array, for a negative index too.
\<close>

definition js_index :: "'a list \<Rightarrow> int \<Rightarrow> 'a option" where
  "js_index xs i = (if 0 \<le> i \<and> i < int (length xs) then Some (xs ! nat i) else None)"

section \<open>services/audioService.ts\<close>

subsection \<open>saveProgress, loadProgress\<close>

record save_io =
  post_result :: "unit outcome"
  setItem_result :: "unit outcome"
  date_now :: int

text \<open>
  \<open>saveProgress\<close>: nothing without a current book. Otherwise the POST is sent; the write
  to AsyncStorage is the next statement of the same \<open>try\<close> block, so it runs only after
  the POST has resolved. Either rejection lands in the one \<open>catch\<close>, which logs.
\<close>

definition saveProgress :: "save_io \<Rightarrow> world \<Rightarrow> world" where
  "saveProgress io w =
     (case currentBook (store w) of
        None \<Rightarrow> w
      | Some cb \<Rightarrow>
          (let w1 = http_issue (Post_progress (book_id cb) (currentPosition (store w))
                                  (duration (store w)) (currentFileIndex cb)) w
           in case post_result io of
                Rejected \<Rightarrow> console_error ''Error saving progress:'' w1
              | Resolved _ \<Rightarrow>
                  (case setItem_result io of
                     Rejected \<Rightarrow> console_error ''Error saving progress:'' w1
                   | Resolved _ \<Rightarrow>
                       w1\<lparr>asyncStorage := (asyncStorage w1)(progress_key (book_id cb) \<mapsto>
                            \<lparr> position = currentPosition (store w),
                              fileIndex = currentFileIndex cb,
                              timestamp = date_now io \<rparr>)\<rparr>)))"

text \<open>
  \<open>loadProgress\<close>: the GET's \<open>response.data\<close> (of type \<open>any\<close> in the source, hence the
  type variable) when the request resolves, \<open>null\<close> after logging when it rejects. A 404
  is a rejection for axios. AsyncStorage is not read.
\<close>

definition loadProgress :: "'d outcome \<Rightarrow> string \<Rightarrow> world \<Rightarrow> 'd option \<times> world" where
  "loadProgress get_result bookId w =
     (let w1 = http_issue (Get_progress bookId) w
      in case get_result of
           Resolved d \<Rightarrow> (Some d, w1)
         | Rejected \<Rightarrow> (None, console_error ''Error loading progress:'' w1))"

subsection \<open>seek, seekTo, skipForward, skipBackward\<close>

definition seek :: "unit outcome \<Rightarrow> int \<Rightarrow> world \<Rightarrow> completion" where
  "seek set_result milliseconds w =
     (case sound (store w) of
        None \<Rightarrow> Returned w
      | Some h \<Rightarrow>
          (let newPosition = max 0 (min (currentPosition (store w) + milliseconds)
                                        (duration (store w)))
           in await_engine set_result (engine_issue (SetPositionAsync h newPosition) w)))"

definition seekTo :: "unit outcome \<Rightarrow> int \<Rightarrow> world \<Rightarrow> completion" where
  "seekTo set_result pos w =
     (case sound (store w) of
        None \<Rightarrow> Returned w
      | Some h \<Rightarrow> await_engine set_result (engine_issue (SetPositionAsync h pos) w))"

definition skipForward :: "unit outcome \<Rightarrow> int \<Rightarrow> world \<Rightarrow> completion" where
  "skipForward set_result seconds w = seek set_result (seconds * 1000) w"

definition skipBackward :: "unit outcome \<Rightarrow> int \<Rightarrow> world \<Rightarrow> completion" where
  "skipBackward set_result seconds w = seek set_result (- seconds * 1000) w"

text \<open>
  The specification's \<open>clamp(x, lo, hi)\<close>, written from its words: \<open>x\<close> brought into the
  interval from \<open>lo\<close> to \<open>hi\<close>.
\<close>

definition clamp :: "int \<Rightarrow> int \<Rightarrow> int \<Rightarrow> int" where
  "clamp x lo hi = (if x < lo then lo else if hi < x then hi else x)"

subsection \<open>startAutoSave, stopAutoSave\<close>

definition startAutoSave :: "world \<Rightarrow> world" where
  "startAutoSave w =
     (let w1 = (case updateInterval w of Some t \<Rightarrow> clearTimer t w | None \<Rightarrow> w);
          (t', w2) = setTimer (Interval_saveProgress 10000) w1
      in w2\<lparr>updateInterval := Some t'\<rparr>)"

definition stopAutoSave :: "world \<Rightarrow> world" where
  "stopAutoSave w =
     (case updateInterval w of
        Some t \<Rightarrow> (clearTimer t w)\<lparr>updateInterval := None\<rparr>
      | None \<Rightarrow> w)"

subsection \<open>loadAndPlayAudio\<close>

text \<open>
  \<open>loadAndPlayAudio\<close> awaits three promises of the engine: \<open>unloadAsync\<close> of the sound
  already in the store (if any), \<open>Audio.Sound.createAsync\<close>, and \<open>playAsync\<close>. The
  runtime is single-threaded and cooperative, so the code between two awaits runs
  atomically and other calls may run while the function is suspended. The function is
  therefore modelled in resumable pieces: \<open>load_start\<close> runs to the first await,
  \<open>load_resume\<close> from one await to the next. A \<open>pending_load\<close> is the suspended call:
  the await it waits at, with the local variables that it still needs.
\<close>

datatype pending_load =
    Await_unload Book int
  | Await_create Book
  | Await_play

record load_io =
  unload_result :: "unit outcome"
  create_result :: "nat outcome"
  play_result :: "unit outcome"

text \<open>The \<open>finally\<close> block, and the \<open>catch\<close> block followed by it.\<close>

definition load_finally :: "world \<Rightarrow> world" where
  "load_finally w = setIsLoading False w"

definition load_catch :: "world \<Rightarrow> world" where
  "load_catch w = load_finally (console_error ''Error loading audio:'' w)"

text \<open>From \<open>const currentFile = book.files[book.currentFileIndex]\<close> to the second await.\<close>

definition load_after_unload :: "Book \<Rightarrow> int \<Rightarrow> world \<Rightarrow> world \<times> pending_load option" where
  "load_after_unload book startPosition w =
     (case js_index (files book) (currentFileIndex book) of
        None \<Rightarrow> (load_finally (console_error ''No file found at index:'' w), None)
      | Some currentFile \<Rightarrow>
          (engine_issue (CreateAsync (uri currentFile) startPosition) w,
           Some (Await_create book)))"

definition load_start :: "Book \<Rightarrow> int \<Rightarrow> world \<Rightarrow> world \<times> pending_load option" where
  "load_start book startPosition w =
     (let w1 = setIsLoading True w
      in case sound (store w) of
           Some h \<Rightarrow> (engine_issue (UnloadAsync h) w1, Some (Await_unload book startPosition))
         | None \<Rightarrow> load_after_unload book startPosition w1)"

fun load_resume :: "pending_load \<Rightarrow> load_io \<Rightarrow> world \<Rightarrow> world \<times> pending_load option" where
  "load_resume (Await_unload book startPosition) io w =
     (case unload_result io of
        Rejected \<Rightarrow> (load_catch w, None)
      | Resolved _ \<Rightarrow> load_after_unload book startPosition w)"
| "load_resume (Await_create book) io w =
     (case create_result io of
        Rejected \<Rightarrow> (load_catch w, None)
      | Resolved h \<Rightarrow>
          (engine_issue (PlayAsync h) (setCurrentBook (Some book) (setSound (Some h) w)),
           Some Await_play))"
| "load_resume Await_play io w =
     (case play_result io of
        Rejected \<Rightarrow> (load_catch w, None)
      | Resolved _ \<Rightarrow> (load_finally (startAutoSave (setIsPlaying True w)), None))"

text \<open>The awaits still ahead of a suspended call.\<close>

fun awaits_left :: "pending_load option \<Rightarrow> nat" where
  "awaits_left None = 0"
| "awaits_left (Some Await_play) = 1"
| "awaits_left (Some (Await_create _)) = 2"
| "awaits_left (Some (Await_unload _ _)) = 3"

text \<open>
  A call that nothing interleaves with: every await is resumed at once with the outcome
  that the environment gives it.
\<close>

function load_run :: "load_io \<Rightarrow> world \<times> pending_load option \<Rightarrow> world" where
  "load_run io (w, None) = w"
| "load_run io (w, Some p) = load_run io (load_resume p io w)"
  by pat_completeness auto
termination
proof (relation "measure (\<lambda>(io, wp). awaits_left (snd wp))")
  show "wf (measure (\<lambda>(io, wp). awaits_left (snd wp)))"
    by simp
next
  fix io :: load_io and w :: world and p :: pending_load
  have "awaits_left (snd (load_resume p io w)) < awaits_left (Some p)"
    by (cases p) (simp_all add: load_after_unload_def split: outcome.split option.split)
  then show "((io, load_resume p io w), (io, w, Some p))
               \<in> measure (\<lambda>(io, wp). awaits_left (snd wp))"
    by simp
qed

definition loadAndPlayAudio :: "load_io \<Rightarrow> Book \<Rightarrow> int \<Rightarrow> world \<Rightarrow> world" where
  "loadAndPlayAudio io book startPosition w = load_run io (load_start book startPosition w)"

subsection \<open>onPlaybackStatusUpdate, handleTrackEnd\<close>

record LoadedStatus =
  positionMillis :: int
  durationMillis :: "int option"
  status_isPlaying :: bool
  didJustFinish :: bool
  isLooping :: bool

datatype AVPlaybackStatus = Status_unloaded | Status_loaded LoadedStatus

definition handleTrackEnd :: "load_io \<Rightarrow> save_io \<Rightarrow> world \<Rightarrow> world" where
  "handleTrackEnd lio sio w =
     (case currentBook (store w) of
        None \<Rightarrow> w
      | Some cb \<Rightarrow>
          if currentFileIndex cb < int (length (files cb)) - 1
          then loadAndPlayAudio lio (cb\<lparr>currentFileIndex := currentFileIndex cb + 1\<rparr>) 0 w
          else saveProgress sio (setIsPlaying False w))"

text \<open>
  \<open>status.durationMillis || 0\<close>: 0 for \<open>undefined\<close>, the value otherwise. The callback
  starts \<open>handleTrackEnd\<close> without awaiting it; here it runs with nothing interleaved.
\<close>

definition onPlaybackStatusUpdate :: "load_io \<Rightarrow> save_io \<Rightarrow> AVPlaybackStatus \<Rightarrow> world \<Rightarrow> world" where
  "onPlaybackStatusUpdate lio sio status w =
     (case status of
        Status_unloaded \<Rightarrow> w
      | Status_loaded st \<Rightarrow>
          (let w1 = setCurrentPosition (positionMillis st) w;
               w2 = setDuration (case durationMillis st of None \<Rightarrow> 0 | Some d \<Rightarrow> d) w1;
               w3 = setIsPlaying (status_isPlaying st) w2
           in if didJustFinish st \<and> \<not> isLooping st then handleTrackEnd lio sio w3 else w3))"

subsection \<open>playPause\<close>

text \<open>
  \<open>playPause\<close> has no \<open>try\<close>: a rejected \<open>pauseAsync\<close> or \<open>playAsync\<close> rejects the call, and
  after a rejected \<open>pauseAsync\<close> the progress is not saved.
\<close>

definition playPause :: "unit outcome \<Rightarrow> save_io \<Rightarrow> world \<Rightarrow> completion" where
  "playPause engine_result sio w =
     (case sound (store w) of
        None \<Rightarrow> Returned w
      | Some h \<Rightarrow>
          if isPlaying (store w)
          then (case await_engine engine_result (engine_issue (PauseAsync h) w) of
                  Threw w1 \<Rightarrow> Threw w1
                | Returned w1 \<Rightarrow> Returned (saveProgress sio w1))
          else await_engine engine_result (engine_issue (PlayAsync h) w))"

subsection \<open>Delayed playback\<close>

definition startDelayedPlayback :: "Book \<Rightarrow> int \<Rightarrow> int \<Rightarrow> world \<Rightarrow> world" where
  "startDelayedPlayback book minutes now w =
     (let w1 = (case delayTimeoutId (store w) of Some t \<Rightarrow> clearTimer t w | None \<Rightarrow> w);
          w2 = setDelayStartTime (Some now) (setIsDelayActive True w1);
          (timeoutId, w3) = setTimer (Timeout_delayedStart book (minutes * 60 * 1000)) w2
      in setDelayTimeoutId (Some timeoutId) w3)"

definition cancelDelayedPlayback :: "world \<Rightarrow> world" where
  "cancelDelayedPlayback w =
     (let w1 = (case delayTimeoutId (store w) of
                  Some t \<Rightarrow> setDelayTimeoutId None (clearTimer t w)
                | None \<Rightarrow> w)
      in setDelayStartTime None (setIsDelayActive False w1))"

subsection \<open>cleanup (the store's, then the service's)\<close>

text \<open>
  The store's \<open>cleanup\<close> awaits \<open>sound.unloadAsync()\<close> outside any \<open>try\<close>: when it rejects,
  the timer is not cleared and the fields are not reset.
\<close>

definition store_cleanup_reset :: "world \<Rightarrow> world" where
  "store_cleanup_reset w =
     (let w1 = (case delayTimeoutId (store w) of Some t \<Rightarrow> clearTimer t w | None \<Rightarrow> w)
      in w1\<lparr>store := (store w1)\<lparr>sound := None, isPlaying := False, delayTimeoutId := None,
                                 isDelayActive := False, delayStartTime := None\<rparr>\<rparr>)"

definition store_cleanup :: "unit outcome \<Rightarrow> world \<Rightarrow> completion" where
  "store_cleanup unload w =
     (case sound (store w) of
        Some h \<Rightarrow>
          (case await_engine unload (engine_issue (UnloadAsync h) w) of
             Threw w1 \<Rightarrow> Threw w1
           | Returned w1 \<Rightarrow> Returned (store_cleanup_reset w1))
      | None \<Rightarrow> Returned (store_cleanup_reset w))"

definition cleanup :: "save_io \<Rightarrow> unit outcome \<Rightarrow> world \<Rightarrow> completion" where
  "cleanup sio unload w = store_cleanup unload (saveProgress sio (stopAutoSave w))"

section \<open>app/player.tsx\<close>

text \<open>
  \<open>handlePlayPause\<close>, the handler of the play button. \<open>isDelayActive\<close> is the store's
  field, as the component's last render read it.
\<close>

definition handlePlayPause :: "unit outcome \<Rightarrow> save_io \<Rightarrow> world \<Rightarrow> completion" where
  "handlePlayPause engine_result sio w =
     (if isDelayActive (store w) then Returned (cancelDelayedPlayback w)
      else playPause engine_result sio w)"

section \<open>Sample data\<close>

definition file_A :: AudioFile where
  "file_A = \<lparr> uri = ''file:///a.mp3'', name = ''a.mp3'', file_duration = 1000 \<rparr>"

definition file_B :: AudioFile where
  "file_B = \<lparr> uri = ''file:///b.mp3'', name = ''b.mp3'', file_duration = 500 \<rparr>"

definition book_AB :: Book where
  "book_AB =
     \<lparr> book_id = ''b1'', title = ''AB'', path = ''file:///'', files = [file_A, file_B],
       totalDuration = 1500, is_series = False, series_name = None,
       currentFileIndex = 0, book_currentPosition = 0 \<rparr>"

text \<open>A book as \<open>FileService.getAllBooks\<close> builds it from the backend's list: no files.\<close>

definition book_listed :: Book where
  "book_listed =
     \<lparr> book_id = ''b2'', title = ''Listed'', path = ''file:///'', files = [],
       totalDuration = 0, is_series = False, series_name = None,
       currentFileIndex = 0, book_currentPosition = 0 \<rparr>"

text \<open>Sound 1 loaded for \<open>book_AB\<close> and playing segment 0 at 200 ms of 1000 ms.\<close>

definition world_playing :: world where
  "world_playing =
     initial_world\<lparr>store := initial_store\<lparr>sound := Some 1, isPlaying := True,
                      currentBook := Some book_AB, currentPosition := 200, duration := 1000\<rparr>\<rparr>"

definition all_ok :: load_io where
  "all_ok = \<lparr> unload_result = Resolved (), create_result = Resolved 2, play_result = Resolved () \<rparr>"

definition save_ok :: save_io where
  "save_ok = \<lparr> post_result = Resolved (), setItem_result = Resolved (), date_now = 1700000000000 \<rparr>"

definition save_offline :: save_io where
  "save_offline = \<lparr> post_result = Rejected, setItem_result = Resolved (), date_now = 1700000000000 \<rparr>"





text \<open>\<open>world_playing\<close> on the last segment of \<open>book_AB\<close>, at its end.\<close>

definition world_last_segment :: world where
  "world_last_segment =
     initial_world\<lparr>store := initial_store\<lparr>sound := Some 1, isPlaying := True,
                      currentBook := Some (book_AB\<lparr>currentFileIndex := 1\<rparr>),
                      currentPosition := 500, duration := 500\<rparr>\<rparr>"

text \<open>The status snapshot of a sound that has just played its \<open>d\<close> ms to the end.\<close>

definition status_finished :: "int \<Rightarrow> LoadedStatus" where
  "status_finished d =
     \<lparr> positionMillis = d, durationMillis = Some d, status_isPlaying = False,
       didJustFinish = True, isLooping = False \<rparr>"

text \<open>A delay of 5 minutes armed from the initial world at time 0.\<close>

definition world_delayed :: world where
  "world_delayed = startDelayedPlayback book_AB 5 0 initial_world"

text \<open>\<open>world_playing\<close>, paused.\<close>

definition world_paused :: world where
  "world_paused = setIsPlaying False world_playing"




section \<open>Verification\<close>

lemmas store_actions =
  setSound_def setIsPlaying_def setCurrentBook_def setCurrentPosition_def setDuration_def
  setIsLoading_def setDelayTimeoutId_def setIsDelayActive_def setDelayStartTime_def

lemmas env_prims =
  console_error_def engine_issue_def http_issue_def clearTimer_def setTimer_def

lemmas sample_worlds =
  world_playing_def initial_world_def initial_store_def book_AB_def file_A_def file_B_def

subsection \<open>A load that runs undisturbed\<close>

lemma loadAndPlayAudio_success:
  assumes f: "js_index (files book) (currentFileIndex book) = Some f"
    and io: "unload_result io = Resolved ()" "create_result io = Resolved h"
            "play_result io = Resolved ()"
  shows "store (loadAndPlayAudio io book startPosition w) =
           (store w)\<lparr>sound := Some h, currentBook := Some book, isPlaying := True,
                      isLoading := False\<rparr>"
    and "engine (loadAndPlayAudio io book startPosition w) =
           engine w @ (case sound (store w) of Some h0 \<Rightarrow> [UnloadAsync h0] | None \<Rightarrow> [])
             @ [CreateAsync (uri f) startPosition, PlayAsync h]"
    and "http (loadAndPlayAudio io book startPosition w) = http w"
  using f io
  by (cases "sound (store w)";
      simp add: loadAndPlayAudio_def load_start_def load_after_unload_def load_finally_def
        startAutoSave_def store_actions env_prims Let_def split: option.split)+

lemma loadAndPlayAudio_no_file:
  assumes f: "js_index (files book) (currentFileIndex book) = None"
  shows "store (loadAndPlayAudio io book startPosition w) = (store w)\<lparr>isLoading := False\<rparr>"
    and "engine (loadAndPlayAudio io book startPosition w) =
           engine w @ (case sound (store w) of Some h0 \<Rightarrow> [UnloadAsync h0] | None \<Rightarrow> [])"
  using f
  by (cases "sound (store w)"; cases "unload_result io";
      simp add: loadAndPlayAudio_def load_start_def load_after_unload_def load_finally_def
        load_catch_def store_actions env_prims Let_def)+

subsection \<open>Saving and loading progress\<close>

text \<open>
  C2, as the specification states it, fails: with a current book and a rejected POST,
  \<open>saveProgress\<close> leaves AsyncStorage without a record under \<open>book_progress_b1\<close>.
\<close>

theorem saveProgress_offline_counterexample:
  "currentBook (store world_playing) = Some book_AB
   \<and> post_result save_offline = Rejected
   \<and> asyncStorage (saveProgress save_offline world_playing) (progress_key (book_id book_AB)) = None"
  by (simp add: saveProgress_def world_playing_def initial_world_def initial_store_def
        save_offline_def env_prims)

text \<open>
  C2, amended: with a current book, \<open>saveProgress\<close> always sends the POST with the book's
  id, the position, the duration and the file index, and it writes the record
  \<open>{position, fileIndex, timestamp}\<close> under \<open>book_progress_{id}\<close> exactly when the POST and
  then the local write resolve; after a rejected POST the local cache is as it was. The
  store is not touched, and no rejection reaches the caller.
\<close>

theorem saveProgress_local_after_remote:
  assumes "currentBook (store w) = Some cb"
  shows "http (saveProgress io w) =
           http w @ [Post_progress (book_id cb) (currentPosition (store w))
                       (duration (store w)) (currentFileIndex cb)]
         \<and> asyncStorage (saveProgress io w) =
             (if post_result io = Resolved () \<and> setItem_result io = Resolved ()
              then (asyncStorage w)(progress_key (book_id cb) \<mapsto>
                     \<lparr> position = currentPosition (store w),
                       fileIndex = currentFileIndex cb,
                       timestamp = date_now io \<rparr>)
              else asyncStorage w)
         \<and> store (saveProgress io w) = store w"
  using assms
  by (simp add: saveProgress_def env_prims Let_def split: outcome.split)

theorem saveProgress_local_after_remote_witness:
  "currentBook (store world_playing) = Some book_AB
   \<and> asyncStorage (saveProgress save_ok world_playing) (progress_key ''b1'') =
       Some \<lparr> position = 200, fileIndex = 0, timestamp = 1700000000000 \<rparr>
   \<and> asyncStorage (saveProgress save_offline world_playing) = Map.empty"
proof -
  have b: "currentBook (store world_playing) = Some book_AB"
    by (simp add: world_playing_def initial_world_def initial_store_def)
  show ?thesis
    using b saveProgress_local_after_remote [OF b, of save_ok]
      saveProgress_local_after_remote [OF b, of save_offline]
    by (simp add: save_ok_def save_offline_def book_AB_def world_playing_def
          initial_world_def initial_store_def)
qed

text \<open>
  C3, as the specification states it, fails: with a record for the book in the local
  cache and a rejected GET, \<open>loadProgress\<close> returns \<open>null\<close>, not the local record.
\<close>

theorem loadProgress_counterexample:
  "asyncStorage (initial_world\<lparr>asyncStorage := [progress_key ''b1'' \<mapsto>
        \<lparr> position = 4200, fileIndex = 1, timestamp = 1700000000000 \<rparr>]\<rparr>) (progress_key ''b1'')
     = Some \<lparr> position = 4200, fileIndex = 1, timestamp = 1700000000000 \<rparr>
   \<and> fst (loadProgress (Rejected :: unit outcome) ''b1''
            (initial_world\<lparr>asyncStorage := [progress_key ''b1'' \<mapsto>
               \<lparr> position = 4200, fileIndex = 1, timestamp = 1700000000000 \<rparr>]\<rparr>)) = None"
  by (simp add: loadProgress_def)

text \<open>
  C3, amended: \<open>loadProgress\<close> sends the GET and returns the remote data when it resolves
  and \<open>null\<close> when it rejects, whatever the local cache holds; the cache is neither read
  nor written, and no rejection reaches the caller.
\<close>

theorem loadProgress_remote_only:
  "fst (loadProgress r bookId w) = (case r of Resolved d \<Rightarrow> Some d | Rejected \<Rightarrow> None)
   \<and> fst (loadProgress r bookId (w\<lparr>asyncStorage := m\<rparr>)) = fst (loadProgress r bookId w)
   \<and> http (snd (loadProgress r bookId w)) = http w @ [Get_progress bookId]
   \<and> asyncStorage (snd (loadProgress r bookId w)) = asyncStorage w
   \<and> store (snd (loadProgress r bookId w)) = store w"
  by (simp add: loadProgress_def env_prims split: outcome.split)

subsection \<open>Delayed start\<close>

text \<open>
  C4, as the specification states it, fails: \<open>startDelayedPlayback\<close> called while sound 1
  is playing leaves \<open>isPlaying\<close> true and the sound in the store, issues no engine call,
  and sets \<open>isDelayActive\<close>.
\<close>

theorem startDelayedPlayback_counterexample:
  "isPlaying (store world_playing)
   \<and> sound (store world_playing) = Some 1
   \<and> isDelayActive (store (startDelayedPlayback book_AB 5 0 world_playing))
   \<and> isPlaying (store (startDelayedPlayback book_AB 5 0 world_playing))
   \<and> sound (store (startDelayedPlayback book_AB 5 0 world_playing)) = Some 1
   \<and> engine (startDelayedPlayback book_AB 5 0 world_playing) = []"
  by (simp add: startDelayedPlayback_def sample_worlds store_actions env_prims)

text \<open>
  C4, amended: in every state, \<open>startDelayedPlayback\<close> clears the pending delay timer if
  there is one, sets \<open>isDelayActive\<close> and \<open>delayStartTime = now\<close>, and arms one new timer
  of \<open>minutes * 60 * 1000\<close> ms whose handle it stores; it issues no engine call and
  leaves \<open>sound\<close> and \<open>isPlaying\<close> as they were.
\<close>

theorem startDelayedPlayback_effect:
  "store (startDelayedPlayback book minutes now w) =
     (store w)\<lparr>isDelayActive := True, delayStartTime := Some now,
                delayTimeoutId := Some (next_timer w)\<rparr>
   \<and> sound (store (startDelayedPlayback book minutes now w)) = sound (store w)
   \<and> isPlaying (store (startDelayedPlayback book minutes now w)) = isPlaying (store w)
   \<and> engine (startDelayedPlayback book minutes now w) = engine w
   \<and> timers (startDelayedPlayback book minutes now w) =
       (case delayTimeoutId (store w) of Some t \<Rightarrow> (timers w)(t := None) | None \<Rightarrow> timers w)
         (next_timer w \<mapsto> Timeout_delayedStart book (minutes * 60 * 1000))"
  by (simp add: startDelayedPlayback_def store_actions env_prims split: option.split)

subsection \<open>Seeking\<close>

text \<open>
  C7, as the specification states it, fails: \<open>seekTo(5000)\<close> on a segment of 1000 ms asks
  the engine for 5000, where the clamp gives 1000.
\<close>

theorem seekTo_counterexample:
  "sound (store world_playing) = Some 1
   \<and> duration (store world_playing) = 1000
   \<and> engine (world_of (seekTo (Resolved ()) 5000 world_playing)) = [SetPositionAsync 1 5000]
   \<and> clamp 5000 0 1000 = 1000"
  by (simp add: seekTo_def world_playing_def initial_world_def initial_store_def env_prims
        clamp_def)

text \<open>
  C7, amended: with a sound loaded, \<open>seekTo\<close> issues the engine seek with exactly the
  position it is given, unclamped; that position is \<open>clamp(positionMs, 0, durationMs)\<close>
  exactly when it already lies between 0 and the duration.
\<close>

theorem seekTo_passes_position:
  assumes "sound (store w) = Some h"
  shows "engine (world_of (seekTo r pos w)) = engine w @ [SetPositionAsync h pos]
         \<and> store (world_of (seekTo r pos w)) = store w
         \<and> (if 0 \<le> pos \<and> pos \<le> duration (store w)
            then pos = clamp pos 0 (duration (store w))
            else pos \<noteq> clamp pos 0 (duration (store w)))"
  using assms
  by (cases r) (auto simp add: seekTo_def env_prims clamp_def)

theorem seekTo_passes_position_witness:
  "sound (store world_playing) = Some 1
   \<and> engine (world_of (seekTo (Resolved ()) 300 world_playing)) = [SetPositionAsync 1 300]
   \<and> 300 = clamp 300 0 1000"
proof -
  have s: "sound (store world_playing) = Some 1"
    by (simp add: world_playing_def initial_world_def initial_store_def)
  show ?thesis
    using s seekTo_passes_position [OF s, of "Resolved ()" 300]
    by (simp add: world_playing_def initial_world_def initial_store_def)
qed

text \<open>
  C8: with a sound loaded, position \<open>p\<close> and a duration \<open>d \<ge> 0\<close>, \<open>seek(delta)\<close> issues
  the engine seek with exactly \<open>clamp(p + delta, 0, d)\<close>, a value between 0 and \<open>d\<close>. The
  witness is the specification's example: \<open>+999999\<close> at 200 ms of 1000 ms seeks to 1000.
\<close>

theorem seek_clamps:
  assumes "sound (store w) = Some h" and "0 \<le> duration (store w)"
  shows "engine (world_of (seek r milliseconds w)) =
           engine w @ [SetPositionAsync h
                         (clamp (currentPosition (store w) + milliseconds) 0 (duration (store w)))]
         \<and> 0 \<le> clamp (currentPosition (store w) + milliseconds) 0 (duration (store w))
         \<and> clamp (currentPosition (store w) + milliseconds) 0 (duration (store w))
             \<le> duration (store w)"
  using assms
  by (cases r) (auto simp add: seek_def env_prims clamp_def Let_def)

theorem seek_clamps_witness:
  "sound (store world_playing) = Some 1
   \<and> currentPosition (store world_playing) = 200
   \<and> duration (store world_playing) = 1000
   \<and> engine (world_of (seek (Resolved ()) 999999 world_playing)) = [SetPositionAsync 1 1000]"
proof -
  have s: "sound (store world_playing) = Some 1"
    by (simp add: world_playing_def initial_world_def initial_store_def)
  have d: "0 \<le> duration (store world_playing)"
    by (simp add: world_playing_def initial_world_def initial_store_def)
  show ?thesis
    using s seek_clamps [OF s d, of "Resolved ()" 999999]
    by (simp add: world_playing_def initial_world_def initial_store_def clamp_def)
qed

subsection \<open>A book without the file to play\<close>

text \<open>
  C10: when \<open>book.files\<close> has no entry at \<open>currentFileIndex\<close> (the empty \<open>files\<close> of a
  book listed by the backend is the witness), \<open>loadAndPlayAudio\<close> ends, whatever the
  engine answers, with \<open>isLoading = false\<close> and has issued no \<open>createAsync\<close> and no
  \<open>playAsync\<close>: the only engine call is the \<open>unloadAsync\<close> of a sound that was in the
  store. \<open>sound\<close>, \<open>isPlaying\<close> and \<open>currentBook\<close> are as before.
\<close>

theorem loadAndPlayAudio_missing_file:
  assumes "js_index (files book) (currentFileIndex book) = None"
  shows "\<not> isLoading (store (loadAndPlayAudio io book startPosition w))
         \<and> engine (loadAndPlayAudio io book startPosition w) =
             engine w @ (case sound (store w) of Some h0 \<Rightarrow> [UnloadAsync h0] | None \<Rightarrow> [])
         \<and> sound (store (loadAndPlayAudio io book startPosition w)) = sound (store w)
         \<and> isPlaying (store (loadAndPlayAudio io book startPosition w)) = isPlaying (store w)
         \<and> currentBook (store (loadAndPlayAudio io book startPosition w)) = currentBook (store w)"
  by (simp add: loadAndPlayAudio_no_file [OF assms])

theorem loadAndPlayAudio_missing_file_witness:
  "js_index (files book_listed) (currentFileIndex book_listed) = None
   \<and> \<not> isLoading (store (loadAndPlayAudio all_ok book_listed 0 initial_world))
   \<and> engine (loadAndPlayAudio all_ok book_listed 0 initial_world) = []
   \<and> engine (loadAndPlayAudio all_ok book_listed 0 world_playing) = [UnloadAsync 1]"
proof -
  have n: "js_index (files book_listed) (currentFileIndex book_listed) = None"
    by (simp add: js_index_def book_listed_def)
  show ?thesis
    using n loadAndPlayAudio_missing_file [OF n, of all_ok 0 initial_world]
      loadAndPlayAudio_missing_file [OF n, of all_ok 0 world_playing]
    by (simp add: sample_worlds)
qed

subsection \<open>Overlapping loads\<close>





subsection \<open>The end of a segment\<close>

lemma handleTrackEnd_next:
  assumes cb: "currentBook (store w) = Some cb"
    and i: "0 \<le> currentFileIndex cb" "currentFileIndex cb < int (length (files cb)) - 1"
    and io: "unload_result lio = Resolved ()" "create_result lio = Resolved h"
            "play_result lio = Resolved ()"
  shows "store (handleTrackEnd lio sio w) =
           (store w)\<lparr>sound := Some h,
                      currentBook := Some (cb\<lparr>currentFileIndex := currentFileIndex cb + 1\<rparr>),
                      isPlaying := True, isLoading := False\<rparr>"
    and "engine (handleTrackEnd lio sio w) =
           engine w @ (case sound (store w) of Some h0 \<Rightarrow> [UnloadAsync h0] | None \<Rightarrow> [])
             @ [CreateAsync (uri (files cb ! nat (currentFileIndex cb + 1))) 0, PlayAsync h]"
    and "http (handleTrackEnd lio sio w) = http w"
proof -
  let ?nb = "cb\<lparr>currentFileIndex := currentFileIndex cb + 1\<rparr>"
  have f: "js_index (files ?nb) (currentFileIndex ?nb)
             = Some (files cb ! nat (currentFileIndex cb + 1))"
    using i by (simp add: js_index_def)
  have h: "handleTrackEnd lio sio w = loadAndPlayAudio lio ?nb 0 w"
    using cb i by (simp add: handleTrackEnd_def)
  show "store (handleTrackEnd lio sio w) =
           (store w)\<lparr>sound := Some h, currentBook := Some ?nb,
                      isPlaying := True, isLoading := False\<rparr>"
    unfolding h by (rule loadAndPlayAudio_success(1) [OF f io])
  show "engine (handleTrackEnd lio sio w) =
           engine w @ (case sound (store w) of Some h0 \<Rightarrow> [UnloadAsync h0] | None \<Rightarrow> [])
             @ [CreateAsync (uri (files cb ! nat (currentFileIndex cb + 1))) 0, PlayAsync h]"
    unfolding h by (rule loadAndPlayAudio_success(2) [OF f io])
  show "http (handleTrackEnd lio sio w) = http w"
    unfolding h by (rule loadAndPlayAudio_success(3) [OF f io])
qed

lemma handleTrackEnd_last:
  assumes cb: "currentBook (store w) = Some cb"
    and i: "\<not> currentFileIndex cb < int (length (files cb)) - 1"
  shows "handleTrackEnd lio sio w = saveProgress sio (setIsPlaying False w)"
    and "store (handleTrackEnd lio sio w) = (store w)\<lparr>isPlaying := False\<rparr>"
    and "engine (handleTrackEnd lio sio w) = engine w"
    and "http (handleTrackEnd lio sio w) =
           http w @ [Post_progress (book_id cb) (currentPosition (store w))
                       (duration (store w)) (currentFileIndex cb)]"
  using cb i
  by (simp_all add: handleTrackEnd_def saveProgress_def store_actions env_prims Let_def
        split: outcome.split)

text \<open>
  C5, as the specification states it, fails on its last part: when the engine reports
  the end of the last segment, sound 1 stays in the store and no \<open>unloadAsync\<close> is
  issued, so the resource is still loaded.
\<close>

theorem track_end_counterexample:
  "currentBook (store world_last_segment) = Some (book_AB\<lparr>currentFileIndex := 1\<rparr>)
   \<and> int (length (files book_AB)) - 1 = 1
   \<and> didJustFinish (status_finished 500)
   \<and> sound (store (onPlaybackStatusUpdate all_ok save_ok (Status_loaded (status_finished 500))
                      world_last_segment)) = Some 1
   \<and> engine (onPlaybackStatusUpdate all_ok save_ok (Status_loaded (status_finished 500))
                world_last_segment) = []"
  by (simp add: onPlaybackStatusUpdate_def handleTrackEnd_def saveProgress_def
        world_last_segment_def status_finished_def save_ok_def initial_world_def
        initial_store_def book_AB_def file_A_def file_B_def store_actions env_prims)

text \<open>
  C5, amended: let the engine report \<open>didJustFinish\<close> (not looping) with a current book.
  On a segment that is not the last (\<open>0 \<le> currentFileIndex < files.length - 1\<close>), and
  when the engine calls resolve, the book in the store is the current book with the index
  incremented, the old sound is unloaded, the next file is created at start position 0
  and played, and \<open>isPlaying\<close> is true, \<open>isLoading\<close> false. On the last segment
  \<open>isPlaying\<close> is set to false and one progress save is sent; the current book and its
  index are retained, and so is the loaded sound: no engine call is issued.
\<close>

theorem track_end_advance:
  assumes cb: "currentBook (store w) = Some cb"
    and fin: "didJustFinish st" "\<not> isLooping st"
    and w': "w' = onPlaybackStatusUpdate lio sio (Status_loaded st) w"
  shows "(0 \<le> currentFileIndex cb \<and> currentFileIndex cb < int (length (files cb)) - 1
          \<and> unload_result lio = Resolved () \<and> create_result lio = Resolved h
          \<and> play_result lio = Resolved ()
          \<longrightarrow> currentBook (store w') = Some (cb\<lparr>currentFileIndex := currentFileIndex cb + 1\<rparr>)
              \<and> sound (store w') = Some h
              \<and> isPlaying (store w')
              \<and> \<not> isLoading (store w')
              \<and> engine w' =
                  engine w @ (case sound (store w) of Some h0 \<Rightarrow> [UnloadAsync h0] | None \<Rightarrow> [])
                    @ [CreateAsync (uri (files cb ! nat (currentFileIndex cb + 1))) 0,
                       PlayAsync h])
         \<and> (\<not> currentFileIndex cb < int (length (files cb)) - 1
            \<longrightarrow> \<not> isPlaying (store w')
                \<and> currentBook (store w') = Some cb
                \<and> sound (store w') = sound (store w)
                \<and> engine w' = engine w
                \<and> http w' =
                    http w @ [Post_progress (book_id cb) (positionMillis st)
                                (case durationMillis st of None \<Rightarrow> 0 | Some d \<Rightarrow> d)
                                (currentFileIndex cb)])"
proof -
  define w3 where
    "w3 = setIsPlaying (status_isPlaying st)
            (setDuration (case durationMillis st of None \<Rightarrow> 0 | Some d \<Rightarrow> d)
               (setCurrentPosition (positionMillis st) w))"
  have run: "w' = handleTrackEnd lio sio w3"
    using fin by (simp add: w' onPlaybackStatusUpdate_def w3_def Let_def)
  have cb3: "currentBook (store w3) = Some cb"
    using cb by (simp add: w3_def store_actions)
  have same: "sound (store w3) = sound (store w)" "engine w3 = engine w" "http w3 = http w"
    "currentPosition (store w3) = positionMillis st"
    "duration (store w3) = (case durationMillis st of None \<Rightarrow> 0 | Some d \<Rightarrow> d)"
    by (simp_all add: w3_def store_actions)
  show ?thesis
  proof (intro conjI impI)
    assume a: "0 \<le> currentFileIndex cb \<and> currentFileIndex cb < int (length (files cb)) - 1
          \<and> unload_result lio = Resolved () \<and> create_result lio = Resolved h
          \<and> play_result lio = Resolved ()"
    then have i: "0 \<le> currentFileIndex cb" "currentFileIndex cb < int (length (files cb)) - 1"
      and io: "unload_result lio = Resolved ()" "create_result lio = Resolved h"
              "play_result lio = Resolved ()"
      by simp_all
    note st = handleTrackEnd_next(1) [OF cb3 i io, of sio]
    note en = handleTrackEnd_next(2) [OF cb3 i io, of sio]
    show "currentBook (store w') = Some (cb\<lparr>currentFileIndex := currentFileIndex cb + 1\<rparr>)"
      unfolding run st by simp
    show "sound (store w') = Some h"
      unfolding run st by simp
    show "isPlaying (store w')"
      unfolding run st by simp
    show "\<not> isLoading (store w')"
      unfolding run st by simp
    show "engine w' =
            engine w @ (case sound (store w) of Some h0 \<Rightarrow> [UnloadAsync h0] | None \<Rightarrow> [])
              @ [CreateAsync (uri (files cb ! nat (currentFileIndex cb + 1))) 0, PlayAsync h]"
      unfolding run en same ..
  next
    assume i: "\<not> currentFileIndex cb < int (length (files cb)) - 1"
    note st = handleTrackEnd_last(2) [OF cb3 i, of lio sio]
    show "\<not> isPlaying (store w')"
      unfolding run st by simp
    show "currentBook (store w') = Some cb"
      unfolding run st using cb3 by simp
    show "sound (store w') = sound (store w)"
      unfolding run st using same(1) by simp
    show "engine w' = engine w"
      unfolding run handleTrackEnd_last(3) [OF cb3 i] same ..
    show "http w' =
            http w @ [Post_progress (book_id cb) (positionMillis st)
                        (case durationMillis st of None \<Rightarrow> 0 | Some d \<Rightarrow> d)
                        (currentFileIndex cb)]"
      unfolding run handleTrackEnd_last(4) [OF cb3 i] same ..
  qed
qed

theorem track_end_advance_witness:
  "currentBook (store (onPlaybackStatusUpdate all_ok save_ok (Status_loaded (status_finished 1000))
                         world_playing)) = Some (book_AB\<lparr>currentFileIndex := 1\<rparr>)
   \<and> sound (store (onPlaybackStatusUpdate all_ok save_ok (Status_loaded (status_finished 1000))
                      world_playing)) = Some 2
   \<and> isPlaying (store (onPlaybackStatusUpdate all_ok save_ok
                         (Status_loaded (status_finished 1000)) world_playing))
   \<and> engine (onPlaybackStatusUpdate all_ok save_ok (Status_loaded (status_finished 1000))
                world_playing)
       = [UnloadAsync 1, CreateAsync ''file:///b.mp3'' 0, PlayAsync 2]
   \<and> \<not> isPlaying (store (onPlaybackStatusUpdate all_ok save_ok
                           (Status_loaded (status_finished 500)) world_last_segment))
   \<and> currentBook (store (onPlaybackStatusUpdate all_ok save_ok
                            (Status_loaded (status_finished 500)) world_last_segment))
       = Some (book_AB\<lparr>currentFileIndex := 1\<rparr>)
   \<and> http (onPlaybackStatusUpdate all_ok save_ok (Status_loaded (status_finished 500))
              world_last_segment) = [Post_progress ''b1'' 500 500 1]"
proof -
  have b0: "currentBook (store world_playing) = Some book_AB"
    by (simp add: world_playing_def initial_world_def initial_store_def)
  have b1: "currentBook (store world_last_segment) = Some (book_AB\<lparr>currentFileIndex := 1\<rparr>)"
    by (simp add: world_last_segment_def initial_world_def initial_store_def)
  have f0: "didJustFinish (status_finished 1000)" "\<not> isLooping (status_finished 1000)"
    by (simp_all add: status_finished_def)
  have f1: "didJustFinish (status_finished 500)" "\<not> isLooping (status_finished 500)"
    by (simp_all add: status_finished_def)
  show ?thesis
    using track_end_advance [OF b0 f0 refl, where lio = all_ok and sio = save_ok and h = 2]
      track_end_advance [OF b1 f1 refl, where lio = all_ok and sio = save_ok and h = 2]
    by (simp add: all_ok_def status_finished_def sample_worlds world_last_segment_def)
qed

subsection \<open>The play button\<close>

lemma saveProgress_frame:
  "store (saveProgress sio v) = store v"
  "engine (saveProgress sio v) = engine v"
  "timers (saveProgress sio v) = timers v"
  "updateInterval (saveProgress sio v) = updateInterval v"
  "http (saveProgress sio v) =
     http v @ (case currentBook (store v) of
                 Some cb \<Rightarrow> [Post_progress (book_id cb) (currentPosition (store v))
                              (duration (store v)) (currentFileIndex cb)]
               | None \<Rightarrow> [])"
  "asyncStorage (saveProgress sio v) =
     (case currentBook (store v) of
        Some cb \<Rightarrow>
          if post_result sio = Resolved () \<and> setItem_result sio = Resolved ()
          then (asyncStorage v)(progress_key (book_id cb) \<mapsto>
                 \<lparr> position = currentPosition (store v), fileIndex = currentFileIndex cb,
                   timestamp = date_now sio \<rparr>)
          else asyncStorage v
      | None \<Rightarrow> asyncStorage v)"
  by (simp_all add: saveProgress_def env_prims Let_def split: option.split outcome.split)

text \<open>
  C6: while a delay is active, \<open>handlePlayPause\<close> cancels the delay (timer cleared,
  \<open>isDelayActive\<close> false, handle and start time null) and issues no engine call and no
  save; with no delay and no sound it changes nothing; with a sound that plays it issues
  \<open>pauseAsync\<close> and, once that resolves, saves the progress: the POST with the book's id,
  the position, the duration and the file index is sent, and the local record is written
  when the POST and the local write resolve; with a sound that does not play it issues
  \<open>playAsync\<close> and saves nothing.
\<close>

theorem handlePlayPause_cases:
  "(isDelayActive (store w)
      \<longrightarrow> handlePlayPause r sio w = Returned (cancelDelayedPlayback w)
          \<and> engine (world_of (handlePlayPause r sio w)) = engine w
          \<and> http (world_of (handlePlayPause r sio w)) = http w
          \<and> \<not> isDelayActive (store (world_of (handlePlayPause r sio w)))
          \<and> delayTimeoutId (store (world_of (handlePlayPause r sio w))) = None
          \<and> delayStartTime (store (world_of (handlePlayPause r sio w))) = None
          \<and> (case delayTimeoutId (store w) of
                Some t \<Rightarrow> timers (world_of (handlePlayPause r sio w)) t = None
              | None \<Rightarrow> timers (world_of (handlePlayPause r sio w)) = timers w))
   \<and> (\<not> isDelayActive (store w) \<and> sound (store w) = None
      \<longrightarrow> handlePlayPause r sio w = Returned w)
   \<and> (\<not> isDelayActive (store w) \<and> sound (store w) = Some h \<and> isPlaying (store w)
      \<longrightarrow> engine (world_of (handlePlayPause r sio w)) = engine w @ [PauseAsync h]
          \<and> handlePlayPause (Resolved ()) sio w =
                Returned (saveProgress sio (engine_issue (PauseAsync h) w))
          \<and> http (world_of (handlePlayPause (Resolved ()) sio w)) =
                http w @ (case currentBook (store w) of
                            Some cb \<Rightarrow> [Post_progress (book_id cb) (currentPosition (store w))
                                         (duration (store w)) (currentFileIndex cb)]
                          | None \<Rightarrow> [])
          \<and> asyncStorage (world_of (handlePlayPause (Resolved ()) sio w)) =
                (case currentBook (store w) of
                   Some cb \<Rightarrow>
                     if post_result sio = Resolved () \<and> setItem_result sio = Resolved ()
                     then (asyncStorage w)(progress_key (book_id cb) \<mapsto>
                            \<lparr> position = currentPosition (store w),
                              fileIndex = currentFileIndex cb, timestamp = date_now sio \<rparr>)
                     else asyncStorage w
                 | None \<Rightarrow> asyncStorage w)
          \<and> store (world_of (handlePlayPause (Resolved ()) sio w)) = store w)
   \<and> (\<not> isDelayActive (store w) \<and> sound (store w) = Some h \<and> \<not> isPlaying (store w)
      \<longrightarrow> engine (world_of (handlePlayPause r sio w)) = engine w @ [PlayAsync h]
          \<and> http (world_of (handlePlayPause r sio w)) = http w
          \<and> handlePlayPause (Resolved ()) sio w = Returned (engine_issue (PlayAsync h) w))"
proof (intro conjI impI)
  assume d: "isDelayActive (store w)"
  then show "handlePlayPause r sio w = Returned (cancelDelayedPlayback w)"
    by (simp add: handlePlayPause_def)
  then show "engine (world_of (handlePlayPause r sio w)) = engine w"
    "http (world_of (handlePlayPause r sio w)) = http w"
    "\<not> isDelayActive (store (world_of (handlePlayPause r sio w)))"
    "delayTimeoutId (store (world_of (handlePlayPause r sio w))) = None"
    "delayStartTime (store (world_of (handlePlayPause r sio w))) = None"
    "case delayTimeoutId (store w) of
       Some t \<Rightarrow> timers (world_of (handlePlayPause r sio w)) t = None
     | None \<Rightarrow> timers (world_of (handlePlayPause r sio w)) = timers w"
    by (simp_all add: cancelDelayedPlayback_def store_actions env_prims split: option.split)
next
  assume "\<not> isDelayActive (store w) \<and> sound (store w) = None"
  then show "handlePlayPause r sio w = Returned w"
    by (simp add: handlePlayPause_def playPause_def)
next
  assume a: "\<not> isDelayActive (store w) \<and> sound (store w) = Some h \<and> isPlaying (store w)"
  have save_engine: "engine (saveProgress sio v) = engine v" for v
    by (simp add: saveProgress_def env_prims Let_def split: option.split outcome.split)
  from a show "engine (world_of (handlePlayPause r sio w)) = engine w @ [PauseAsync h]"
    by (cases r) (simp_all add: handlePlayPause_def playPause_def save_engine, simp_all add: env_prims)
  from a show run: "handlePlayPause (Resolved ()) sio w =
                Returned (saveProgress sio (engine_issue (PauseAsync h) w))"
    by (simp add: handlePlayPause_def playPause_def)
  have v: "store (engine_issue (PauseAsync h) w) = store w"
    "http (engine_issue (PauseAsync h) w) = http w"
    "asyncStorage (engine_issue (PauseAsync h) w) = asyncStorage w"
    by (simp_all add: env_prims)
  show "http (world_of (handlePlayPause (Resolved ()) sio w)) =
          http w @ (case currentBook (store w) of
                      Some cb \<Rightarrow> [Post_progress (book_id cb) (currentPosition (store w))
                                   (duration (store w)) (currentFileIndex cb)]
                    | None \<Rightarrow> [])"
    by (cases "currentBook (store w)") (simp_all add: run saveProgress_frame(5) v)
  show "asyncStorage (world_of (handlePlayPause (Resolved ()) sio w)) =
          (case currentBook (store w) of
             Some cb \<Rightarrow>
               if post_result sio = Resolved () \<and> setItem_result sio = Resolved ()
               then (asyncStorage w)(progress_key (book_id cb) \<mapsto>
                      \<lparr> position = currentPosition (store w),
                        fileIndex = currentFileIndex cb, timestamp = date_now sio \<rparr>)
               else asyncStorage w
           | None \<Rightarrow> asyncStorage w)"
    by (cases "currentBook (store w)") (simp_all add: run saveProgress_frame(6) v)
  show "store (world_of (handlePlayPause (Resolved ()) sio w)) = store w"
    by (simp add: run saveProgress_frame(1) v)
next
  assume a: "\<not> isDelayActive (store w) \<and> sound (store w) = Some h \<and> \<not> isPlaying (store w)"
  from a show "engine (world_of (handlePlayPause r sio w)) = engine w @ [PlayAsync h]"
    "http (world_of (handlePlayPause r sio w)) = http w"
    by (cases r; simp add: handlePlayPause_def playPause_def env_prims)+
  from a show "handlePlayPause (Resolved ()) sio w = Returned (engine_issue (PlayAsync h) w)"
    by (simp add: handlePlayPause_def playPause_def)
qed

theorem handlePlayPause_cases_witness:
  "isDelayActive (store world_delayed)
   \<and> timers world_delayed 1 = Some (Timeout_delayedStart book_AB 300000)
   \<and> engine (world_of (handlePlayPause (Resolved ()) save_ok world_delayed)) = []
   \<and> timers (world_of (handlePlayPause (Resolved ()) save_ok world_delayed)) 1 = None
   \<and> \<not> isDelayActive (store (world_of (handlePlayPause (Resolved ()) save_ok world_delayed)))
   \<and> handlePlayPause (Resolved ()) save_ok initial_world = Returned initial_world
   \<and> engine (world_of (handlePlayPause (Resolved ()) save_ok world_playing)) = [PauseAsync 1]
   \<and> http (world_of (handlePlayPause (Resolved ()) save_ok world_playing))
       = [Post_progress ''b1'' 200 1000 0]
   \<and> engine (world_of (handlePlayPause (Resolved ()) save_ok world_paused)) = [PlayAsync 1]
   \<and> http (world_of (handlePlayPause (Resolved ()) save_ok world_paused)) = []"
proof -
  have d: "isDelayActive (store world_delayed)"
    "delayTimeoutId (store world_delayed) = Some 1"
    "timers world_delayed 1 = Some (Timeout_delayedStart book_AB 300000)"
    by (simp_all add: world_delayed_def startDelayedPlayback_def initial_world_def
          initial_store_def store_actions env_prims)
  have i: "\<not> isDelayActive (store initial_world) \<and> sound (store initial_world) = None"
    by (simp add: initial_world_def initial_store_def)
  have p: "\<not> isDelayActive (store world_playing) \<and> sound (store world_playing) = Some 1
           \<and> isPlaying (store world_playing)"
    by (simp add: world_playing_def initial_world_def initial_store_def)
  have q: "\<not> isDelayActive (store world_paused) \<and> sound (store world_paused) = Some 1
           \<and> \<not> isPlaying (store world_paused)"
    by (simp add: world_paused_def world_playing_def initial_world_def initial_store_def
          store_actions)
  have s: "currentBook (store world_playing) = Some book_AB"
    "currentPosition (store world_playing) = 200" "duration (store world_playing) = 1000"
    "book_id book_AB = ''b1''" "currentFileIndex book_AB = 0" "http world_playing = []"
    by (simp_all add: sample_worlds)
  have e: "engine world_delayed = []" "engine world_playing = []" "engine world_paused = []"
    "http world_paused = []"
    by (simp_all add: world_delayed_def startDelayedPlayback_def world_paused_def
          world_playing_def initial_world_def initial_store_def store_actions env_prims)
  note T1 = handlePlayPause_cases [of world_delayed "Resolved ()" save_ok 1]
  note T2 = handlePlayPause_cases [of initial_world "Resolved ()" save_ok 1]
  note T3 = handlePlayPause_cases [of world_playing "Resolved ()" save_ok 1]
  note T4 = handlePlayPause_cases [of world_paused "Resolved ()" save_ok 1]
  have A: "engine (world_of (handlePlayPause (Resolved ()) save_ok world_delayed)) = []
           \<and> timers (world_of (handlePlayPause (Resolved ()) save_ok world_delayed)) 1 = None
           \<and> \<not> isDelayActive (store (world_of (handlePlayPause (Resolved ()) save_ok
                                                  world_delayed)))"
    using mp [OF conjunct1 [OF T1] d(1)] d(2) e(1) by auto
  have B: "handlePlayPause (Resolved ()) save_ok initial_world = Returned initial_world"
    using mp [OF conjunct1 [OF conjunct2 [OF T2]] i] .
  have C: "engine (world_of (handlePlayPause (Resolved ()) save_ok world_playing))
             = [PauseAsync 1]
           \<and> http (world_of (handlePlayPause (Resolved ()) save_ok world_playing))
               = [Post_progress ''b1'' 200 1000 0]"
    using mp [OF conjunct1 [OF conjunct2 [OF conjunct2 [OF T3]]] p] s e(2) by auto
  have D: "engine (world_of (handlePlayPause (Resolved ()) save_ok world_paused))
             = [PlayAsync 1]
           \<and> http (world_of (handlePlayPause (Resolved ()) save_ok world_paused)) = []"
    using mp [OF conjunct2 [OF conjunct2 [OF conjunct2 [OF T4]]] q] e(3,4) by auto
  show ?thesis
    using A B C D d(1,3) by simp
qed

subsection \<open>Teardown\<close>

lemma stopAutoSave_frame:
  "store (stopAutoSave v) = store v"
  "engine (stopAutoSave v) = engine v"
  "http (stopAutoSave v) = http v"
  "updateInterval (stopAutoSave v) = None"
  "timers (stopAutoSave v) t = (if updateInterval v = Some t then None else timers v t)"
  by (simp_all add: stopAutoSave_def env_prims split: option.split)

text \<open>
  C9, as the specification states it, fails: after \<open>cleanup\<close> the store still holds the
  book and the position; it is not the empty store.
\<close>

theorem cleanup_counterexample:
  "cleanup save_ok (Resolved ()) world_playing =
     Returned (world_of (cleanup save_ok (Resolved ()) world_playing))
   \<and> currentBook (store (world_of (cleanup save_ok (Resolved ()) world_playing))) = Some book_AB
   \<and> currentPosition (store (world_of (cleanup save_ok (Resolved ()) world_playing))) = 200
   \<and> store (world_of (cleanup save_ok (Resolved ()) world_playing)) \<noteq> initial_store"
  by (simp add: cleanup_def store_cleanup_def store_cleanup_reset_def stopAutoSave_def
        saveProgress_def save_ok_def world_playing_def initial_world_def initial_store_def
        env_prims)

text \<open>
  C9, amended: in every state, when the unload resolves, \<open>cleanup\<close> returns having
  cleared the autosave interval, sent one progress save if there is a current book,
  cleared the pending delay timer, issued \<open>unloadAsync\<close> for the sound if one is in the
  store, and reset \<open>sound\<close>, \<open>isPlaying\<close>, \<open>delayTimeoutId\<close>, \<open>isDelayActive\<close> and
  \<open>delayStartTime\<close>; \<open>currentBook\<close>, \<open>currentPosition\<close>, \<open>duration\<close>, \<open>isLoading\<close> and
  \<open>delayMinutes\<close> keep their values. With the initial store and no autosave interval it
  changes nothing, whatever the engine answers.
\<close>

theorem cleanup_effect:
  assumes w': "w' = world_of (cleanup sio (Resolved ()) w)"
  shows "cleanup sio (Resolved ()) w = Returned w'
         \<and> updateInterval w' = None
         \<and> timers w' t =
             (if updateInterval w = Some t \<or> delayTimeoutId (store w) = Some t then None
              else timers w t)
         \<and> http w' =
             http w @ (case currentBook (store w) of
                         Some cb \<Rightarrow> [Post_progress (book_id cb) (currentPosition (store w))
                                      (duration (store w)) (currentFileIndex cb)]
                       | None \<Rightarrow> [])
         \<and> engine w' =
             engine w @ (case sound (store w) of Some h \<Rightarrow> [UnloadAsync h] | None \<Rightarrow> [])
         \<and> store w' =
             (store w)\<lparr>sound := None, isPlaying := False, delayTimeoutId := None,
                        isDelayActive := False, delayStartTime := None\<rparr>
         \<and> currentBook (store w') = currentBook (store w)
         \<and> (store w = initial_store \<and> updateInterval w = None
            \<longrightarrow> cleanup sio unload w = Returned w)"
proof -
  define v where "v = saveProgress sio (stopAutoSave w)"
  have v: "store v = store w" "engine v = engine w" "updateInterval v = None"
    "timers v t = (if updateInterval w = Some t then None else timers w t)"
    "http v = http w @ (case currentBook (store w) of
                         Some cb \<Rightarrow> [Post_progress (book_id cb) (currentPosition (store w))
                                      (duration (store w)) (currentFileIndex cb)]
                       | None \<Rightarrow> [])"
    by (simp_all add: v_def saveProgress_frame stopAutoSave_frame cong: option.case_cong)
  have c: "cleanup sio u w = store_cleanup u v" for u
    by (simp add: cleanup_def v_def)
  have r: "store_cleanup (Resolved ()) v =
             Returned (store_cleanup_reset
                         (case sound (store v) of Some h \<Rightarrow> engine_issue (UnloadAsync h) v
                          | None \<Rightarrow> v))"
    by (simp add: store_cleanup_def split: option.split)
  have w'_eq: "w' = store_cleanup_reset
                      (case sound (store v) of Some h \<Rightarrow> engine_issue (UnloadAsync h) v
                       | None \<Rightarrow> v)"
    by (simp add: w' c r)
  have 1: "cleanup sio (Resolved ()) w = Returned w'"
    by (simp add: c r w'_eq)
  have 2: "updateInterval w' = None"
    using v(3) by (simp add: w'_eq store_cleanup_reset_def env_prims split: option.split)
  have 3: "timers w' t =
             (if updateInterval w = Some t \<or> delayTimeoutId (store w) = Some t then None
              else timers w t)"
    using v(1,4) by (simp add: w'_eq store_cleanup_reset_def env_prims split: option.split)
  have 4: "http w' = http v"
    by (simp add: w'_eq store_cleanup_reset_def env_prims split: option.split)
  have 5: "engine w' =
             engine w @ (case sound (store w) of Some h \<Rightarrow> [UnloadAsync h] | None \<Rightarrow> [])"
    using v(1,2) by (simp add: w'_eq store_cleanup_reset_def env_prims split: option.split)
  have 6: "store w' =
             (store w)\<lparr>sound := None, isPlaying := False, delayTimeoutId := None,
                        isDelayActive := False, delayStartTime := None\<rparr>"
    using v(1) by (simp add: w'_eq store_cleanup_reset_def env_prims split: option.split)
  have 7: "currentBook (store w') = currentBook (store w)"
    by (simp add: 6)
  have 8: "cleanup sio unload w = Returned w"
    if "store w = initial_store \<and> updateInterval w = None"
    using that
    by (simp add: cleanup_def stopAutoSave_def saveProgress_def store_cleanup_def
          store_cleanup_reset_def initial_store_def)
  show ?thesis
    using 1 2 3 4 5 6 7 8 v(5) by simp
qed

theorem cleanup_effect_witness:
  "cleanup save_ok (Resolved ()) (startAutoSave world_playing)
     = Returned (world_of (cleanup save_ok (Resolved ()) (startAutoSave world_playing)))
   \<and> updateInterval (startAutoSave world_playing) = Some 1
   \<and> timers (startAutoSave world_playing) 1 = Some (Interval_saveProgress 10000)
   \<and> timers (world_of (cleanup save_ok (Resolved ()) (startAutoSave world_playing))) 1 = None
   \<and> http (world_of (cleanup save_ok (Resolved ()) (startAutoSave world_playing)))
       = [Post_progress ''b1'' 200 1000 0]
   \<and> engine (world_of (cleanup save_ok (Resolved ()) (startAutoSave world_playing)))
       = [UnloadAsync 1]
   \<and> sound (store (world_of (cleanup save_ok (Resolved ()) (startAutoSave world_playing)))) = None
   \<and> currentBook (store (world_of (cleanup save_ok (Resolved ()) (startAutoSave world_playing))))
       = Some book_AB
   \<and> cleanup save_ok Rejected initial_world = Returned initial_world"
proof -
  have a: "updateInterval (startAutoSave world_playing) = Some 1"
    "timers (startAutoSave world_playing) 1 = Some (Interval_saveProgress 10000)"
    "store (startAutoSave world_playing) = store world_playing"
    "http (startAutoSave world_playing) = []"
    "engine (startAutoSave world_playing) = []"
    by (simp_all add: startAutoSave_def sample_worlds env_prims)
  have i: "store initial_world = initial_store \<and> updateInterval initial_world = None"
    by (simp add: initial_world_def)
  show ?thesis
    using a i
      cleanup_effect [OF refl, of save_ok "startAutoSave world_playing" 1 "Resolved ()"]
      cleanup_effect [OF refl, of save_ok initial_world 1 Rejected]
    by (simp add: sample_worlds)
qed

end
